theory Spec2Isabelle
  imports Complex_Main
begin

section \<open>Values decoded by \<^verbatim>\<open>json.loads\<close>\<close>

text \<open>
  The spider handles whatever \<^verbatim>\<open>json.loads\<close> returns: \<^verbatim>\<open>None\<close>, a \<^verbatim>\<open>bool\<close>, an
  unbounded \<^verbatim>\<open>int\<close>, a \<^verbatim>\<open>float\<close>, a \<^verbatim>\<open>str\<close>, a \<^verbatim>\<open>list\<close> or a \<^verbatim>\<open>dict\<close> with string
  keys. A dict is kept as its items in insertion order (the keys of a decoded dict are
  distinct). A finite float is represented by the rational it denotes; the non-standard
  literals \<^verbatim>\<open>NaN\<close> and \<^verbatim>\<open>Infinity\<close> are outside the model.
\<close>

datatype json =
    JNull
  | JBool bool
  | JInt int
  | JFloat rat
  | JStr string
  | JArr "json list"
  | JObj "(string \<times> json) list"

datatype py_error = AttributeError | TypeError | KeyError | UnicodeDecodeError

text \<open>Truth value testing, as used by \<^verbatim>\<open>if x:\<close> and \<^verbatim>\<open>x and y\<close>.\<close>

fun truthy :: "json \<Rightarrow> bool" where
  "truthy JNull = False"
| "truthy (JBool b) = b"
| "truthy (JInt n) = (n \<noteq> 0)"
| "truthy (JFloat r) = (r \<noteq> 0)"
| "truthy (JStr s) = (s \<noteq> [])"
| "truthy (JArr xs) = (xs \<noteq> [])"
| "truthy (JObj kvs) = (kvs \<noteq> [])"

text \<open>\<^verbatim>\<open>x.get(key, default)\<close>: only a dict has the method.\<close>

fun py_get :: "json \<Rightarrow> string \<Rightarrow> json \<Rightarrow> py_error + json" where
  "py_get (JObj kvs) k d = Inr (case map_of kvs k of None \<Rightarrow> d | Some v \<Rightarrow> v)"
| "py_get _ k d = Inl AttributeError"

text \<open>\<^verbatim>\<open>x[key]\<close> with a string key.\<close>

fun py_getitem :: "json \<Rightarrow> string \<Rightarrow> py_error + json" where
  "py_getitem (JObj kvs) k = (case map_of kvs k of None \<Rightarrow> Inl KeyError | Some v \<Rightarrow> Inr v)"
| "py_getitem _ k = Inl TypeError"

text \<open>\<^verbatim>\<open>len(x)\<close>.\<close>

fun py_len :: "json \<Rightarrow> py_error + nat" where
  "py_len (JStr s) = Inr (length s)"
| "py_len (JArr xs) = Inr (length xs)"
| "py_len (JObj kvs) = Inr (length kvs)"
| "py_len _ = Inl TypeError"

text \<open>
  The elements produced by \<^verbatim>\<open>for x in v\<close>: the elements of a list, the one-character
  strings of a string, the keys of a dict; anything else is not iterable.
\<close>

fun py_iter :: "json \<Rightarrow> py_error + json list" where
  "py_iter (JArr xs) = Inr xs"
| "py_iter (JStr s) = Inr (map (\<lambda>c. JStr [c]) s)"
| "py_iter (JObj kvs) = Inr (map (\<lambda>kv. JStr (fst kv)) kvs)"
| "py_iter _ = Inl TypeError"

text \<open>\<^verbatim>\<open>s in t\<close> for two strings is the substring test.\<close>

fun starts_with :: "string \<Rightarrow> string \<Rightarrow> bool" where
  "starts_with t [] = True"
| "starts_with [] (c # s) = False"
| "starts_with (d # t) (c # s) = (d = c \<and> starts_with t s)"

fun substring_of :: "string \<Rightarrow> string \<Rightarrow> bool" where
  "substring_of s [] = (s = [])"
| "substring_of s (d # t) = (starts_with (d # t) s \<or> substring_of s t)"

text \<open>\<^verbatim>\<open>"key" in x\<close> for a string constant on the left.\<close>

fun py_in :: "string \<Rightarrow> json \<Rightarrow> py_error + bool" where
  "py_in k (JObj kvs) = Inr (k \<in> set (map fst kvs))"
| "py_in k (JArr xs) = Inr (JStr k \<in> set xs)"
| "py_in k (JStr s) = Inr (substring_of k s)"
| "py_in k _ = Inl TypeError"

text \<open>\<^verbatim>\<open>page < v\<close> for an \<^verbatim>\<open>int\<close> page; \<^verbatim>\<open>bool\<close> is a subtype of \<^verbatim>\<open>int\<close>.\<close>

fun py_int_lt :: "int \<Rightarrow> json \<Rightarrow> py_error + bool" where
  "py_int_lt p (JInt n) = Inr (p < n)"
| "py_int_lt p (JFloat r) = Inr (of_int p < r)"
| "py_int_lt p (JBool b) = Inr (p < (if b then 1 else 0))"
| "py_int_lt p _ = Inl TypeError"

text \<open>Sequencing of computations that may raise.\<close>

definition and_then :: "py_error + 'a \<Rightarrow> ('a \<Rightarrow> py_error + 'b) \<Rightarrow> py_error + 'b" where
  "and_then r k = (case r of Inl e \<Rightarrow> Inl e | Inr v \<Rightarrow> k v)"

section \<open>The product normalizer\<close>

text \<open>
  \<^verbatim>\<open>process_product_item\<close> returns a dict literal; it is kept as a \<^const>\<open>JObj\<close> so that
  its keys are data. The lookups run in the order of the source; each of them can only
  raise \<^verbatim>\<open>AttributeError\<close> (a \<^verbatim>\<open>.get\<close> on something that is not a dict).
\<close>

definition process_product_item :: "json \<Rightarrow> py_error + json" where
  "process_product_item item =
     and_then (py_get item ''price_range'' (JObj [])) (\<lambda>price_range.
     and_then (py_get price_range ''maximum_price'' (JObj [])) (\<lambda>price_info.
     and_then (py_get price_info ''final_price'' (JObj [])) (\<lambda>fp.
     and_then (py_get fp ''value'' JNull) (\<lambda>final_price.
     and_then (py_get price_info ''regular_price'' (JObj [])) (\<lambda>rp.
     and_then (py_get rp ''value'' JNull) (\<lambda>regular_price.
     and_then (py_get price_info ''final_price'' (JObj [])) (\<lambda>fp'.
     and_then (py_get fp' ''currency'' JNull) (\<lambda>currency.
     and_then (py_get price_info ''discount'' (JObj [])) (\<lambda>discount.
     and_then (py_get item ''id'' JNull) (\<lambda>v_id.
     and_then (py_get item ''uid'' JNull) (\<lambda>v_uid.
     and_then (py_get item ''sku'' JNull) (\<lambda>v_sku.
     and_then (py_get item ''name'' JNull) (\<lambda>v_name.
     and_then (py_get item ''url_key'' JNull) (\<lambda>v_url_key.
     and_then (py_get item ''stock_status'' JNull) (\<lambda>v_stock_status.
     and_then (py_get discount ''amount_off'' JNull) (\<lambda>v_amount_off.
     and_then (py_get discount ''percent_off'' JNull) (\<lambda>v_percent_off.
     and_then (py_get item ''small_image'' (JObj [])) (\<lambda>small_image.
     and_then (py_get small_image ''url'' JNull) (\<lambda>v_image_url.
     and_then (py_get item ''description'' (JObj [])) (\<lambda>description.
     and_then (py_get description ''html'' JNull) (\<lambda>v_html.
       Inr (JObj
         [(''id'', v_id),
          (''uid'', v_uid),
          (''sku'', v_sku),
          (''name'', v_name),
          (''url_key'', v_url_key),
          (''stock_status'', v_stock_status),
          (''final_price'', final_price),
          (''regular_price'', regular_price),
          (''currency'', currency),
          (''discount_amount'', v_amount_off),
          (''discount_percent'', v_percent_off),
          (''image_url'', v_image_url),
          (''description'', v_html),
          (''source_site'', JStr ''electric-house'')])
     )))))))))))))))))))))"

section \<open>Generators\<close>

text \<open>
  A products request carries \<^verbatim>\<open>cb_kwargs = {"category_uid": ..., "page": ...}\<close>; the same
  two values are the variables of its GraphQL payload.
\<close>

datatype request = ProductsRequest (cb_category_uid: json) (cb_page: int)

datatype level = INFO | ERROR

text \<open>
  The lines written to the log, by the values formatted into them. The last one is
  written by the framework when a callback raises.
\<close>

datatype message =
    FoundRootCategories nat
  | FailedToDecodeJSON string
  | GraphQLErrors json int json
  | ScrapedProducts nat json int json
  | SpiderError request py_error

datatype event = Log level message | Item json | Req request

text \<open>
  A callback is a generator. What it does is the sequence of its effects in order (a log
  line, a yielded item, a yielded request), ended either by returning or by an exception
  that leaves it: what was yielded before the exception has been yielded.
\<close>

type_synonym gen = "event list \<times> py_error option"

definition done_gen :: gen where
  "done_gen = ([], None)"

definition raise_gen :: "py_error \<Rightarrow> gen" where
  "raise_gen e = ([], Some e)"

definition emit :: "event \<Rightarrow> gen" where
  "emit x = ([x], None)"

definition gen_then :: "gen \<Rightarrow> gen \<Rightarrow> gen" where
  "gen_then g h =
     (case snd g of
        Some e \<Rightarrow> g
      | None \<Rightarrow> (fst g @ fst h, snd h))"

definition eval_then :: "py_error + 'a \<Rightarrow> ('a \<Rightarrow> gen) \<Rightarrow> gen" where
  "eval_then r k = (case r of Inl e \<Rightarrow> raise_gen e | Inr v \<Rightarrow> k v)"

lemma eval_then_cong [fundef_cong]:
  "r = r' \<Longrightarrow> (\<And>v. r' = Inr v \<Longrightarrow> k v = k' v) \<Longrightarrow> eval_then r k = eval_then r' k'"
  by (simp add: eval_then_def split: sum.splits)

text \<open>
  \<^verbatim>\<open>fetch_products\<close> yields one request. \<^verbatim>\<open>json.dumps\<close> of the payload cannot fail on
  a decoded value and an \<^verbatim>\<open>int\<close>.
\<close>

definition fetch_products :: "json \<Rightarrow> int \<Rightarrow> gen" where
  "fetch_products uid p = emit (Req (ProductsRequest uid p))"

section \<open>The category traversal\<close>

text \<open>
  \<^verbatim>\<open>cat.get("children") and len(cat["children"]) > 0\<close>: the right operand is evaluated
  only when the left one is truthy.
\<close>

definition has_children :: "json \<Rightarrow> py_error + bool" where
  "has_children cat =
     and_then (py_get cat ''children'' JNull) (\<lambda>c.
       if truthy c then
         and_then (py_getitem cat ''children'') (\<lambda>c'.
         and_then (py_len c') (\<lambda>n. Inr (n > 0)))
       else Inr False)"

text \<open>Two measures for the termination of the traversal.\<close>

fun iter_weight :: "json \<Rightarrow> nat" where
  "iter_weight (JStr s) = Suc (length s)"
| "iter_weight (JArr xs) = Suc (sum_list (map (\<lambda>x. Suc (iter_weight x)) xs))"
| "iter_weight (JObj kvs) = Suc (sum_list (map (\<lambda>kv. Suc (iter_weight (snd kv))) kvs))"
| "iter_weight _ = 0"

fun elem_weight :: "json \<Rightarrow> nat" where
  "elem_weight (JObj kvs) = Suc (iter_weight (JObj kvs))"
| "elem_weight _ = Suc 0"

lemma iter_weight_lookup:
  "map_of kvs k = Some v \<Longrightarrow> iter_weight v < sum_list (map (\<lambda>kv. Suc (iter_weight (snd kv))) kvs)"
  by (induction kvs) (auto split: if_splits)

lemma elem_weight_le: "elem_weight x \<le> Suc (iter_weight x)"
  by (cases x) auto

lemma iter_weight_elems:
  "py_iter cats = Inr xs \<Longrightarrow> sum_list (map elem_weight xs) \<le> iter_weight cats"
proof (cases cats)
  case (JArr ys)
  assume "py_iter cats = Inr xs"
  with JArr have "xs = ys" by simp
  have "sum_list (map elem_weight ys) \<le> sum_list (map (\<lambda>x. Suc (iter_weight x)) ys)"
    by (rule sum_list_mono) (simp add: elem_weight_le)
  with JArr \<open>xs = ys\<close> show ?thesis by simp
next
  case (JStr s)
  assume "py_iter cats = Inr xs"
  with JStr have xs: "xs = map (\<lambda>c. JStr [c]) s" by simp
  have "sum_list (map elem_weight xs) = length s"
    unfolding xs by (induction s) auto
  with JStr show ?thesis by simp
next
  case (JObj kvs)
  assume "py_iter cats = Inr xs"
  with JObj have xs: "xs = map (\<lambda>kv. JStr (fst kv)) kvs" by simp
  have "sum_list (map elem_weight xs) = length kvs"
    unfolding xs by (induction kvs) auto
  moreover have "length kvs \<le> sum_list (map (\<lambda>kv. Suc (iter_weight (snd kv))) kvs)"
    by (induction kvs) auto
  ultimately show ?thesis using JObj by simp
qed auto

text \<open>
  \<^verbatim>\<open>traverse_categories(cats)\<close> iterates over its argument, whatever it is;
  \<open>traverse_for\<close> is its \<^verbatim>\<open>for cat in cats\<close> loop over the elements still to come.
\<close>

function traverse_categories :: "json \<Rightarrow> gen"
  and traverse_for :: "json list \<Rightarrow> gen" where
  "traverse_categories cats = eval_then (py_iter cats) traverse_for"
| "traverse_for [] = done_gen"
| "traverse_for (cat # rest) =
     gen_then
       (eval_then (has_children cat) (\<lambda>b.
          if b then eval_then (py_getitem cat ''children'') traverse_categories
          else eval_then (py_get cat ''uid'' JNull) (\<lambda>uid.
                 if truthy uid then fetch_products uid 1 else done_gen)))
       (traverse_for rest)"
  by pat_completeness auto
termination
proof (relation "measure (\<lambda>a. case a of Inl cats \<Rightarrow> Suc (iter_weight cats)
                                   | Inr xs \<Rightarrow> sum_list (map elem_weight xs))")
  show "wf (measure (\<lambda>a. case a of Inl cats \<Rightarrow> Suc (iter_weight cats)
                                   | Inr xs \<Rightarrow> sum_list (map elem_weight xs)))"
    by simp
next
  fix cats xs
  assume "py_iter cats = Inr xs"
  then show "(Inr xs, Inl cats) \<in> measure (\<lambda>a. case a of Inl cats \<Rightarrow> Suc (iter_weight cats)
                                   | Inr xs \<Rightarrow> sum_list (map elem_weight xs))"
    using iter_weight_elems [of cats xs] by simp
next
  fix cat rest b ch
  assume "py_getitem cat ''children'' = Inr ch"
  then show "(Inl ch, Inr (cat # rest)) \<in> measure (\<lambda>a. case a of Inl cats \<Rightarrow> Suc (iter_weight cats)
                                   | Inr xs \<Rightarrow> sum_list (map elem_weight xs))"
    by (cases cat) (auto split: option.splits dest: iter_weight_lookup)
next
  fix cat rest
  show "(Inr rest, Inr (cat # rest)) \<in> measure (\<lambda>a. case a of Inl cats \<Rightarrow> Suc (iter_weight cats)
                                   | Inr xs \<Rightarrow> sum_list (map elem_weight xs))"
    by (cases cat) auto
qed

section \<open>The callbacks\<close>

text \<open>
  A response is used through \<^verbatim>\<open>response.url\<close> and \<^verbatim>\<open>json.loads(response.body)\<close> only.
  The decoder is a library function: its outcome is taken as given. It returns a value,
  or raises \<^verbatim>\<open>json.JSONDecodeError\<close> (the one exception the callbacks catch), or, on
  bytes that are not valid UTF-8, raises \<^verbatim>\<open>UnicodeDecodeError\<close>, which is not a
  \<^verbatim>\<open>JSONDecodeError\<close> and leaves the callback.
\<close>

datatype loads = Loaded json | RaisesJSONDecodeError | RaisesUnicodeDecodeError

datatype response = Response (url: string) (loads_body: loads)

definition parse_categories :: "response \<Rightarrow> gen" where
  "parse_categories response =
     (case loads_body response of
        RaisesJSONDecodeError \<Rightarrow> emit (Log ERROR (FailedToDecodeJSON (url response)))
      | RaisesUnicodeDecodeError \<Rightarrow> raise_gen UnicodeDecodeError
      | Loaded data \<Rightarrow>
          eval_then (py_get data ''data'' (JObj [])) (\<lambda>d.
          eval_then (py_get d ''categoryList'' (JArr [])) (\<lambda>categories.
          eval_then (py_len categories) (\<lambda>n.
            gen_then (emit (Log INFO (FoundRootCategories n)))
              (traverse_categories categories)))))"

text \<open>\<^verbatim>\<open>for item in items: yield self.process_product_item(item)\<close>\<close>

fun yield_items :: "json list \<Rightarrow> gen" where
  "yield_items [] = done_gen"
| "yield_items (item # rest) =
     gen_then (eval_then (process_product_item item) (\<lambda>r. emit (Item r))) (yield_items rest)"

text \<open>\<^verbatim>\<open>products_data = data.get("data", {}).get("products", {})\<close>\<close>

definition products_data :: "json \<Rightarrow> py_error + json" where
  "products_data data =
     and_then (py_get data ''data'' (JObj [])) (\<lambda>d. py_get d ''products'' (JObj []))"

definition parse_products :: "response \<Rightarrow> json \<Rightarrow> int \<Rightarrow> gen" where
  "parse_products response category_uid page =
     (case loads_body response of
        RaisesJSONDecodeError \<Rightarrow> emit (Log ERROR (FailedToDecodeJSON (url response)))
      | RaisesUnicodeDecodeError \<Rightarrow> raise_gen UnicodeDecodeError
      | Loaded data \<Rightarrow>
          eval_then (py_in ''errors'' data) (\<lambda>has_errors.
            if has_errors then
              eval_then (py_getitem data ''errors'') (\<lambda>errors.
                emit (Log ERROR (GraphQLErrors category_uid page errors)))
            else
              eval_then (products_data data) (\<lambda>pd.
              eval_then (py_get pd ''items'' (JArr [])) (\<lambda>items.
              eval_then (py_get pd ''page_info'' (JObj [])) (\<lambda>page_info.
              eval_then (py_get page_info ''total_pages'' (JInt 1)) (\<lambda>total_pages.
              eval_then (py_len items) (\<lambda>n.
                gen_then (emit (Log INFO (ScrapedProducts n category_uid page total_pages)))
               (gen_then (eval_then (py_iter items) yield_items)
                 (eval_then (py_int_lt page total_pages) (\<lambda>more.
                    if more then fetch_products category_uid (page + 1)
                    else done_gen))))))))))"

section \<open>The request chain of one category\<close>

text \<open>
  The framework downloads every request a callback yields and calls the request's
  callback with the response and the request's \<^verbatim>\<open>cb_kwargs\<close>. A download that fails,
  or whose status is not passed on to the spider, calls no callback; products requests
  have no errback. When a callback raises, the framework logs the error and goes on.
  The upstream server is a parameter, from requests to outcomes.

  \<^verbatim>\<open>parse_products\<close> is the callback of every products request. \<open>crawl_category\<close> sends
  a request and follows the requests that \<^verbatim>\<open>parse_products\<close> yields in turn; its
  result is what happens in order: each request sent, then the log lines and items of
  its callback. The number of requests it may send is bounded by its first argument,
  and \<open>None\<close> says that the bound was reached before the chain ended.
\<close>

datatype outcome = Delivered response | Dropped

fun is_request :: "event \<Rightarrow> bool" where
  "is_request (Req q) = True"
| "is_request _ = False"

fun requests_of :: "event list \<Rightarrow> request list" where
  "requests_of [] = []"
| "requests_of (Req q # evs) = q # requests_of evs"
| "requests_of (_ # evs) = requests_of evs"

fun items_of :: "event list \<Rightarrow> json list" where
  "items_of [] = []"
| "items_of (Item x # evs) = x # items_of evs"
| "items_of (_ # evs) = items_of evs"

definition callback_output :: "request \<Rightarrow> gen \<Rightarrow> event list" where
  "callback_output r g =
     filter (\<lambda>ev. \<not> is_request ev) (fst g) @
     (case snd g of None \<Rightarrow> [] | Some e \<Rightarrow> [Log ERROR (SpiderError r e)])"

fun crawl_category :: "nat \<Rightarrow> (request \<Rightarrow> outcome) \<Rightarrow> request \<Rightarrow> event list option" where
  "crawl_category 0 server r = None"
| "crawl_category (Suc fuel) server r =
     (case server r of
        Dropped \<Rightarrow> Some [Req r]
      | Delivered response \<Rightarrow>
          (let g = parse_products response (cb_category_uid r) (cb_page r)
           in case requests_of (fst g) of
                [] \<Rightarrow> Some (Req r # callback_output r g)
              | q # qs \<Rightarrow>
                  map_option (\<lambda>t. Req r # callback_output r g @ t)
                    (crawl_category fuel server q)))"

section \<open>Category trees\<close>

text \<open>
  The vocabulary of the statements about the traversal. The children of a node are the
  elements of the list under its \<^verbatim>\<open>children\<close> key; \<open>preorder\<close> lists the nodes of a
  forest depth-first, siblings in the order of the response.
\<close>

definition child_nodes :: "json \<Rightarrow> json list" where
  "child_nodes cat =
     (case py_get cat ''children'' JNull of
        Inr (JArr cs) \<Rightarrow> cs
      | _ \<Rightarrow> [])"

lemma child_nodes_weight: "sum_list (map elem_weight (child_nodes cat)) < elem_weight cat"
proof (cases "py_get cat ''children'' JNull")
  case (Inl e)
  then show ?thesis by (cases cat) (auto simp: child_nodes_def)
next
  case (Inr ch)
  show ?thesis
  proof (cases ch)
    case (JArr cs)
    with Inr obtain kvs where cat: "cat = JObj kvs" and look: "map_of kvs ''children'' = Some (JArr cs)"
      by (cases cat) (auto split: option.splits)
    have "sum_list (map elem_weight cs) \<le> iter_weight (JArr cs)"
      by (rule iter_weight_elems) simp
    also have "\<dots> < sum_list (map (\<lambda>kv. Suc (iter_weight (snd kv))) kvs)"
      using look by (rule iter_weight_lookup)
    finally show ?thesis using cat look by (simp add: child_nodes_def)
  qed (use Inr in \<open>cases cat; auto simp: child_nodes_def\<close>)+
qed

function preorder :: "json list \<Rightarrow> json list" where
  "preorder [] = []"
| "preorder (cat # rest) = cat # preorder (child_nodes cat) @ preorder rest"
  by pat_completeness auto
termination
proof (relation "measure (\<lambda>xs. sum_list (map elem_weight xs))")
  fix cat :: json and rest :: "json list"
  have "0 < elem_weight cat" by (cases cat) auto
  then show "(rest, cat # rest) \<in> measure (\<lambda>xs. sum_list (map elem_weight xs))" by simp
  show "(child_nodes cat, cat # rest) \<in> measure (\<lambda>xs. sum_list (map elem_weight xs))"
    using child_nodes_weight [of cat] by simp
qed simp

text \<open>
  A category node, as the category query returns it: an object whose \<^verbatim>\<open>children\<close> entry
  is missing (the query selects no children at its deepest level), null, or a list.
\<close>

fun category_node :: "json \<Rightarrow> bool" where
  "category_node (JObj kvs) =
     (case map_of kvs ''children'' of
        None \<Rightarrow> True
      | Some JNull \<Rightarrow> True
      | Some (JArr cs) \<Rightarrow> True
      | Some _ \<Rightarrow> False)"
| "category_node _ = False"

definition category_forest :: "json list \<Rightarrow> bool" where
  "category_forest cats = list_all category_node (preorder cats)"

text \<open>A leaf has no children: the entry is missing, null or the empty list.\<close>

fun childless :: "json \<Rightarrow> bool" where
  "childless (JObj kvs) =
     (case map_of kvs ''children'' of
        None \<Rightarrow> True
      | Some JNull \<Rightarrow> True
      | Some (JArr cs) \<Rightarrow> cs = []
      | Some _ \<Rightarrow> False)"
| "childless _ = False"

definition leaves :: "json list \<Rightarrow> json list" where
  "leaves cats = filter childless (preorder cats)"

text \<open>The value of \<^verbatim>\<open>cat.get("uid")\<close> on a dict.\<close>

fun uid_of :: "json \<Rightarrow> json" where
  "uid_of (JObj kvs) = (case map_of kvs ''uid'' of None \<Rightarrow> JNull | Some v \<Rightarrow> v)"
| "uid_of _ = JNull"

text \<open>The request that starts the scrape of a category: page 1 of its products.\<close>

definition scrape_request :: "json \<Rightarrow> event" where
  "scrape_request cat = Req (ProductsRequest (uid_of cat) 1)"

text \<open>
  The condition under which a node is scraped, in words: its \<^verbatim>\<open>children\<close> entry is
  missing, null or the empty list, and its \<^verbatim>\<open>uid\<close> is present and truthy.
\<close>

fun scrape_target :: "json \<Rightarrow> bool" where
  "scrape_target (JObj kvs) =
     ((case map_of kvs ''children'' of
         None \<Rightarrow> True
       | Some JNull \<Rightarrow> True
       | Some (JArr cs) \<Rightarrow> cs = []
       | Some _ \<Rightarrow> False) \<and>
      (case map_of kvs ''uid'' of
         None \<Rightarrow> False
       | Some uid \<Rightarrow> truthy uid))"
| "scrape_target _ = False"

section \<open>Records and product nodes\<close>

text \<open>
  The vocabulary of the statements about the normalizer: the value of a field of a
  record, the keys of a record in order, and the shape of a nested block that a
  \<^verbatim>\<open>.get(key, {})\<close> followed by another \<^verbatim>\<open>.get\<close> accepts (the key is missing, or its value
  is a dict).
\<close>

fun field :: "json \<Rightarrow> string \<Rightarrow> json option" where
  "field (JObj kvs) k = map_of kvs k"
| "field _ k = None"

fun keys_of :: "json \<Rightarrow> string list" where
  "keys_of (JObj kvs) = map fst kvs"
| "keys_of _ = []"

fun object_or_absent :: "json option \<Rightarrow> bool" where
  "object_or_absent None = True"
| "object_or_absent (Some (JObj kvs)) = True"
| "object_or_absent (Some _) = False"

fun entries :: "json option \<Rightarrow> (string \<times> json) list" where
  "entries (Some (JObj kvs)) = kvs"
| "entries _ = []"

definition normalizes :: "json \<Rightarrow> bool" where
  "normalizes item = (case process_product_item item of Inl e \<Rightarrow> False | Inr r \<Rightarrow> True)"

text \<open>
  A product node all of whose nested blocks (\<^verbatim>\<open>price_range\<close>, its \<^verbatim>\<open>maximum_price\<close>, the
  three price blocks in it, \<^verbatim>\<open>small_image\<close>, \<^verbatim>\<open>description\<close>) are missing or dicts.
\<close>

definition product_node :: "json \<Rightarrow> bool" where
  "product_node item =
     (case item of
        JObj kvs \<Rightarrow>
          (let pr = entries (map_of kvs ''price_range'');
               mp = entries (map_of pr ''maximum_price'')
           in object_or_absent (map_of kvs ''price_range'') \<and>
              object_or_absent (map_of pr ''maximum_price'') \<and>
              object_or_absent (map_of mp ''final_price'') \<and>
              object_or_absent (map_of mp ''regular_price'') \<and>
              object_or_absent (map_of mp ''discount'') \<and>
              object_or_absent (map_of kvs ''small_image'') \<and>
              object_or_absent (map_of kvs ''description''))
      | _ \<Rightarrow> False)"

text \<open>
  A page response that decodes, carries no \<^verbatim>\<open>errors\<close>, and whose \<^verbatim>\<open>items\<close> and
  \<^verbatim>\<open>total_pages\<close>, read the way \<^verbatim>\<open>parse_products\<close> reads them, are the given ones.
\<close>

definition page_reports :: "response \<Rightarrow> json list \<Rightarrow> json \<Rightarrow> bool" where
  "page_reports response its tp =
     (case loads_body response of
        RaisesJSONDecodeError \<Rightarrow> False
      | RaisesUnicodeDecodeError \<Rightarrow> False
      | Loaded data \<Rightarrow>
          py_in ''errors'' data = Inr False \<and>
          and_then (products_data data) (\<lambda>pd. py_get pd ''items'' (JArr [])) = Inr (JArr its) \<and>
          and_then (products_data data) (\<lambda>pd.
            and_then (py_get pd ''page_info'' (JObj [])) (\<lambda>page_info.
              py_get page_info ''total_pages'' (JInt 1))) = Inr tp)"

section \<open>Example responses\<close>

text \<open>
  Responses and servers for the concrete runs below. \<open>page_body\<close> is a products page as
  the products query returns it.
\<close>

definition page_body :: "json list \<Rightarrow> int \<Rightarrow> int \<Rightarrow> json" where
  "page_body items cur tot =
     JObj [(''data'', JObj [(''products'', JObj
       [(''total_count'', JInt 3),
        (''page_info'', JObj [(''current_page'', JInt cur), (''total_pages'', JInt tot)]),
        (''items'', JArr items)])])]"

definition two_pages :: "request \<Rightarrow> outcome" where
  "two_pages r =
     (if cb_page r = 1 then
        Delivered (Response ''https://electric-house.com/graphql''
          (Loaded (page_body [JObj [(''sku'', JStr ''p1'')], JObj [(''sku'', JStr ''p2'')]] 1 2)))
      else if cb_page r = 2 then
        Delivered (Response ''https://electric-house.com/graphql''
          (Loaded (page_body [JObj [(''sku'', JStr ''p3'')]] 2 2)))
      else Dropped)"

definition null_image_on_first_page :: "request \<Rightarrow> outcome" where
  "null_image_on_first_page r =
     (if cb_page r = 1 then
        Delivered (Response ''https://electric-house.com/graphql''
          (Loaded (page_body
             [JObj [(''sku'', JStr ''p1'')],
              JObj [(''sku'', JStr ''p2''), (''small_image'', JNull)]] 1 2)))
      else
        Delivered (Response ''https://electric-house.com/graphql''
          (Loaded (page_body [JObj [(''sku'', JStr ''p3'')]] (cb_page r) 2))))"

definition one_page :: "request \<Rightarrow> outcome" where
  "one_page r =
     Delivered (Response ''https://electric-house.com/graphql''
       (Loaded (page_body [JObj [(''sku'', JStr ''p1'')]] (cb_page r) 1)))"

definition empty_pages :: "request \<Rightarrow> outcome" where
  "empty_pages r =
     Delivered (Response ''https://electric-house.com/graphql''
       (Loaded (page_body [] (cb_page r) 3)))"

definition errors_body :: json where
  "errors_body =
     JObj [(''errors'', JArr [JObj [(''message'', JStr ''Internal server error'')]]),
           (''data'', JNull)]"

definition errors_on_first_page :: "request \<Rightarrow> outcome" where
  "errors_on_first_page r =
     Delivered (Response ''https://electric-house.com/graphql''
       (Loaded (if cb_page r = 1 then errors_body else page_body [] (cb_page r) 3)))"

section \<open>Basic facts\<close>

lemma and_then_simps [simp]:
  "and_then (Inl e) k = Inl e"
  "and_then (Inr v) k = k v"
  by (simp_all add: and_then_def)

lemma and_then_Inr: "and_then r k = Inr y \<longleftrightarrow> (\<exists>v. r = Inr v \<and> k v = Inr y)"
  by (cases r) simp_all

lemma gen_then_simps [simp]:
  "gen_then (xs, None) h = (xs @ fst h, snd h)"
  "gen_then (xs, Some e) h = (xs, Some e)"
  by (simp_all add: gen_then_def)

lemma object_or_absent_get:
  "object_or_absent (map_of kvs k) \<Longrightarrow> \<exists>o'. py_get (JObj kvs) k (JObj []) = Inr (JObj o')"
  by (cases "map_of kvs k" rule: object_or_absent.cases) simp_all

lemma get_entries:
  "object_or_absent (map_of kvs k) \<Longrightarrow>
     py_get (JObj kvs) k (JObj []) = Inr (JObj (entries (map_of kvs k)))"
  by (cases "map_of kvs k" rule: object_or_absent.cases) simp_all

section \<open>The normalizer\<close>

text \<open>
  On a product node whose nested blocks are missing or dicts the normalizer returns a
  record.
\<close>

lemma product_node_normalizes:
  assumes "product_node item"
  shows "\<exists>r. process_product_item item = Inr r"
proof -
  from assms obtain kvs where item: "item = JObj kvs"
    by (cases item) (simp_all add: product_node_def)
  define pr where "pr = entries (map_of kvs ''price_range'')"
  define mp where "mp = entries (map_of pr ''maximum_price'')"
  from assms have ok: "object_or_absent (map_of kvs ''price_range'')"
    "object_or_absent (map_of pr ''maximum_price'')"
    "object_or_absent (map_of mp ''final_price'')"
    "object_or_absent (map_of mp ''regular_price'')"
    "object_or_absent (map_of mp ''discount'')"
    "object_or_absent (map_of kvs ''small_image'')"
    "object_or_absent (map_of kvs ''description'')"
    unfolding product_node_def item pr_def mp_def by (simp_all add: Let_def)
  have eqs: "py_get (JObj kvs) ''price_range'' (JObj []) = Inr (JObj pr)"
    "py_get (JObj pr) ''maximum_price'' (JObj []) = Inr (JObj mp)"
    using ok(1,2) by (simp_all only: get_entries pr_def mp_def)
  note more = get_entries [OF ok(3)] get_entries [OF ok(4)] get_entries [OF ok(5)]
    get_entries [OF ok(6)] get_entries [OF ok(7)]
  show ?thesis
    unfolding process_product_item_def item
    apply (simp only: eqs more and_then_simps)
    apply simp
    done
qed

text \<open>
  C3. The claim: the normalizer never fails, whatever the raw product node. The code
  fails on a node in which a nested block is present but null: here a product the
  upstream API returns with \<^verbatim>\<open>"small_image": null\<close>. \<^verbatim>\<open>item.get("small_image", {})\<close> is
  then \<^verbatim>\<open>None\<close>, and \<^verbatim>\<open>None.get("url")\<close> raises \<^verbatim>\<open>AttributeError\<close>.
\<close>

theorem process_product_item_null_block:
  "process_product_item (JObj
     [(''id'', JInt 7), (''uid'', JStr ''Nw==''), (''sku'', JStr ''EH-7''),
      (''name'', JStr ''Kettle''), (''stock_status'', JStr ''IN_STOCK''),
      (''url_key'', JStr ''kettle''),
      (''price_range'', JObj [(''maximum_price'', JObj
          [(''final_price'', JObj [(''value'', JInt 100), (''currency'', JStr ''SAR'')]),
           (''regular_price'', JObj [(''value'', JInt 150), (''currency'', JStr ''SAR'')]),
           (''discount'', JObj [(''amount_off'', JInt 50), (''percent_off'', JInt 33)])])]),
      (''small_image'', JNull),
      (''description'', JObj [(''html'', JStr ''<p>Kettle</p>'')])])
   = Inl AttributeError"
  by (simp add: process_product_item_def)

text \<open>
  Where the other nested blocks of the node are missing or dicts: a node without the
  \<^verbatim>\<open>price_range\<close> key normalizes to a record whose five price fields are null, and a
  node whose price block has a \<^verbatim>\<open>final_price\<close> with a value and no \<^verbatim>\<open>discount\<close> key
  normalizes to a record with that final price and null discount fields.
\<close>

lemma price_fields_of_partial_nodes:
  "(map_of kvs ''price_range'' = None \<and>
    object_or_absent (map_of kvs ''small_image'') \<and>
    object_or_absent (map_of kvs ''description'') \<longrightarrow>
      (\<exists>r. process_product_item (JObj kvs) = Inr r \<and>
           field r ''final_price'' = Some JNull \<and>
           field r ''regular_price'' = Some JNull \<and>
           field r ''currency'' = Some JNull \<and>
           field r ''discount_amount'' = Some JNull \<and>
           field r ''discount_percent'' = Some JNull)) \<and>
   (map_of kvs' ''price_range'' = Some (JObj pr) \<and>
    map_of pr ''maximum_price'' = Some (JObj mp) \<and>
    map_of mp ''final_price'' = Some (JObj fp) \<and>
    map_of fp ''value'' = Some v \<and> v \<noteq> JNull \<and>
    map_of mp ''discount'' = None \<and>
    object_or_absent (map_of mp ''regular_price'') \<and>
    object_or_absent (map_of kvs' ''small_image'') \<and>
    object_or_absent (map_of kvs' ''description'') \<longrightarrow>
      (\<exists>r. process_product_item (JObj kvs') = Inr r \<and>
           field r ''final_price'' = Some v \<and> v \<noteq> JNull \<and>
           field r ''discount_amount'' = Some JNull \<and>
           field r ''discount_percent'' = Some JNull))"
proof (intro conjI impI; elim conjE)
  assume none: "map_of kvs ''price_range'' = None"
    and si: "object_or_absent (map_of kvs ''small_image'')"
    and de: "object_or_absent (map_of kvs ''description'')"
  note blocks = get_entries [OF si] get_entries [OF de]
  show "\<exists>r. process_product_item (JObj kvs) = Inr r \<and>
           field r ''final_price'' = Some JNull \<and>
           field r ''regular_price'' = Some JNull \<and>
           field r ''currency'' = Some JNull \<and>
           field r ''discount_amount'' = Some JNull \<and>
           field r ''discount_percent'' = Some JNull"
    using none blocks by (simp add: process_product_item_def)
next
  assume block: "map_of kvs' ''price_range'' = Some (JObj pr)"
    "map_of pr ''maximum_price'' = Some (JObj mp)"
    "map_of mp ''final_price'' = Some (JObj fp)"
    "map_of fp ''value'' = Some v" "v \<noteq> JNull"
    "map_of mp ''discount'' = None"
    and rp: "object_or_absent (map_of mp ''regular_price'')"
    and si: "object_or_absent (map_of kvs' ''small_image'')"
    and de: "object_or_absent (map_of kvs' ''description'')"
  note blocks = get_entries [OF rp] get_entries [OF si] get_entries [OF de]
  show "\<exists>r. process_product_item (JObj kvs') = Inr r \<and>
           field r ''final_price'' = Some v \<and> v \<noteq> JNull \<and>
           field r ''discount_amount'' = Some JNull \<and>
           field r ''discount_percent'' = Some JNull"
    using block blocks by (simp add: process_product_item_def)
qed

lemma price_fields_of_partial_nodes_example:
  "(\<exists>r. process_product_item (JObj [(''id'', JInt 7), (''name'', JStr ''Kettle'')]) = Inr r \<and>
        field r ''final_price'' = Some JNull \<and>
        field r ''regular_price'' = Some JNull \<and>
        field r ''currency'' = Some JNull \<and>
        field r ''discount_amount'' = Some JNull \<and>
        field r ''discount_percent'' = Some JNull) \<and>
   (\<exists>r. process_product_item (JObj [(''id'', JInt 7),
          (''price_range'', JObj [(''maximum_price'', JObj
             [(''final_price'', JObj [(''value'', JInt 100), (''currency'', JStr ''SAR'')])])])])
          = Inr r \<and>
        field r ''final_price'' = Some (JInt 100) \<and> JInt 100 \<noteq> JNull \<and>
        field r ''discount_amount'' = Some JNull \<and>
        field r ''discount_percent'' = Some JNull)"
  using price_fields_of_partial_nodes
    [of "[(''id'', JInt 7), (''name'', JStr ''Kettle'')]"
        "[(''id'', JInt 7),
          (''price_range'', JObj [(''maximum_price'', JObj
             [(''final_price'', JObj [(''value'', JInt 100), (''currency'', JStr ''SAR'')])])])]"
        "[(''maximum_price'', JObj
             [(''final_price'', JObj [(''value'', JInt 100), (''currency'', JStr ''SAR'')])])]"
        "[(''final_price'', JObj [(''value'', JInt 100), (''currency'', JStr ''SAR'')])]"
        "[(''value'', JInt 100), (''currency'', JStr ''SAR'')]"
        "JInt 100"]
  by simp

text \<open>
  C7. The claim: every node that lacks \<^verbatim>\<open>price_range\<close> normalizes, without raising, to a
  record with null price fields, and every node whose price block has a \<^verbatim>\<open>final_price\<close>
  and no \<^verbatim>\<open>discount\<close> to a record with that price and null discount fields. The code
  raises \<^verbatim>\<open>AttributeError\<close> on such nodes when another nested block is present but null:
  a node without \<^verbatim>\<open>price_range\<close> whose \<^verbatim>\<open>small_image\<close> is null (line 218), and a node
  with a \<^verbatim>\<open>final_price\<close> and no \<^verbatim>\<open>discount\<close> key whose \<^verbatim>\<open>regular_price\<close> is null
  (line 200) or whose \<^verbatim>\<open>description\<close> is null (line 219).
\<close>

theorem partial_nodes_with_null_block_raise:
  "process_product_item (JObj
     [(''id'', JInt 7), (''sku'', JStr ''EH-7''), (''name'', JStr ''Kettle''),
      (''small_image'', JNull)]) = Inl AttributeError \<and>
   process_product_item (JObj
     [(''id'', JInt 7), (''sku'', JStr ''EH-7''),
      (''price_range'', JObj [(''maximum_price'', JObj
         [(''final_price'', JObj [(''value'', JInt 100), (''currency'', JStr ''SAR'')]),
          (''regular_price'', JNull)])])]) = Inl AttributeError \<and>
   process_product_item (JObj
     [(''id'', JInt 7), (''sku'', JStr ''EH-7''),
      (''price_range'', JObj [(''maximum_price'', JObj
         [(''final_price'', JObj [(''value'', JInt 100), (''currency'', JStr ''SAR'')])])]),
      (''description'', JNull)]) = Inl AttributeError"
  by (simp add: process_product_item_def)

text \<open>
  Where the image and description blocks of the node are missing or dicts: the values
  under \<^verbatim>\<open>final_price.value\<close>, \<^verbatim>\<open>regular_price.value\<close>, \<^verbatim>\<open>final_price.currency\<close>,
  \<^verbatim>\<open>discount.amount_off\<close> and \<^verbatim>\<open>discount.percent_off\<close> of the price block are the values
  of the record's \<^verbatim>\<open>final_price\<close>, \<^verbatim>\<open>regular_price\<close>, \<^verbatim>\<open>currency\<close>, \<^verbatim>\<open>discount_amount\<close>
  and \<^verbatim>\<open>discount_percent\<close>, unchanged, whatever they are.
\<close>

lemma price_block_copied:
  assumes "map_of kvs ''price_range'' = Some (JObj pr)"
    and "map_of pr ''maximum_price'' = Some (JObj mp)"
    and "map_of mp ''final_price'' = Some (JObj fp)"
    and "map_of mp ''regular_price'' = Some (JObj rp)"
    and "map_of mp ''discount'' = Some (JObj dc)"
    and "map_of fp ''value'' = Some fv" and "map_of fp ''currency'' = Some cur"
    and "map_of rp ''value'' = Some rv"
    and "map_of dc ''amount_off'' = Some am" and "map_of dc ''percent_off'' = Some pc"
    and si: "object_or_absent (map_of kvs ''small_image'')"
    and de: "object_or_absent (map_of kvs ''description'')"
  shows "\<exists>r. process_product_item (JObj kvs) = Inr r \<and>
           field r ''final_price'' = Some fv \<and>
           field r ''regular_price'' = Some rv \<and>
           field r ''currency'' = Some cur \<and>
           field r ''discount_amount'' = Some am \<and>
           field r ''discount_percent'' = Some pc"
proof -
  note blocks = get_entries [OF si] get_entries [OF de]
  show ?thesis
    using assms(1-10) blocks by (simp add: process_product_item_def)
qed

lemma price_block_copied_example:
  "\<exists>r. process_product_item (JObj
       [(''id'', JInt 7), (''sku'', JStr ''EH-7''),
        (''price_range'', JObj [(''maximum_price'', JObj
           [(''final_price'', JObj [(''value'', JInt 100), (''currency'', JStr ''SAR'')]),
            (''regular_price'', JObj [(''value'', JInt 150), (''currency'', JStr ''SAR'')]),
            (''discount'', JObj [(''amount_off'', JInt 50), (''percent_off'', JInt 33)])])]),
        (''small_image'', JObj [(''url'', JStr ''https://electric-house.com/k.jpg'')])]) = Inr r \<and>
     field r ''final_price'' = Some (JInt 100) \<and>
     field r ''regular_price'' = Some (JInt 150) \<and>
     field r ''currency'' = Some (JStr ''SAR'') \<and>
     field r ''discount_amount'' = Some (JInt 50) \<and>
     field r ''discount_percent'' = Some (JInt 33)"
  by (rule price_block_copied
      [where pr = "[(''maximum_price'', JObj
           [(''final_price'', JObj [(''value'', JInt 100), (''currency'', JStr ''SAR'')]),
            (''regular_price'', JObj [(''value'', JInt 150), (''currency'', JStr ''SAR'')]),
            (''discount'', JObj [(''amount_off'', JInt 50), (''percent_off'', JInt 33)])])]"
         and mp = "[(''final_price'', JObj [(''value'', JInt 100), (''currency'', JStr ''SAR'')]),
            (''regular_price'', JObj [(''value'', JInt 150), (''currency'', JStr ''SAR'')]),
            (''discount'', JObj [(''amount_off'', JInt 50), (''percent_off'', JInt 33)])]"
         and fp = "[(''value'', JInt 100), (''currency'', JStr ''SAR'')]"
         and rp = "[(''value'', JInt 150), (''currency'', JStr ''SAR'')]"
         and dc = "[(''amount_off'', JInt 50), (''percent_off'', JInt 33)]"])
    simp_all

text \<open>
  C8. The claim: every node whose price block carries \<^verbatim>\<open>final_price\<close> 100 SAR,
  \<^verbatim>\<open>regular_price\<close> 150 SAR and \<^verbatim>\<open>discount\<close> 50 / 33 normalizes to a record with these
  five values. The code raises \<^verbatim>\<open>AttributeError\<close> on such a node when its \<^verbatim>\<open>description\<close>
  is null: the price values are read (lines 198-204), then \<^verbatim>\<open>item.get("description", {})\<close>
  is \<^verbatim>\<open>None\<close> and \<^verbatim>\<open>None.get("html")\<close> fails (line 219), so no record is returned.
\<close>

theorem price_block_with_null_description_raises:
  "process_product_item (JObj
     [(''id'', JInt 9), (''uid'', JStr ''OQ==''), (''sku'', JStr ''EH-9''),
      (''name'', JStr ''Toaster''), (''stock_status'', JStr ''IN_STOCK''),
      (''url_key'', JStr ''toaster''),
      (''price_range'', JObj [(''maximum_price'', JObj
          [(''final_price'', JObj [(''value'', JInt 100), (''currency'', JStr ''SAR'')]),
           (''regular_price'', JObj [(''value'', JInt 150), (''currency'', JStr ''SAR'')]),
           (''discount'', JObj [(''amount_off'', JInt 50), (''percent_off'', JInt 33)])])]),
      (''small_image'', JObj [(''url'', JStr ''https://electric-house.com/t.jpg'')]),
      (''description'', JNull)])
   = Inl AttributeError"
  by (simp add: process_product_item_def)

text \<open>
  C9. Every record the normalizer returns has the fourteen keys \<^verbatim>\<open>id\<close>, \<^verbatim>\<open>uid\<close>, \<^verbatim>\<open>sku\<close>,
  \<^verbatim>\<open>name\<close>, \<^verbatim>\<open>url_key\<close>, \<^verbatim>\<open>stock_status\<close>, \<^verbatim>\<open>final_price\<close>, \<^verbatim>\<open>regular_price\<close>, \<^verbatim>\<open>currency\<close>,
  \<^verbatim>\<open>discount_amount\<close>, \<^verbatim>\<open>discount_percent\<close>, \<^verbatim>\<open>image_url\<close>, \<^verbatim>\<open>description\<close>, \<^verbatim>\<open>source_site\<close>,
  in this order and no other, and its \<^verbatim>\<open>source_site\<close> is \<^verbatim>\<open>"electric-house"\<close>.
\<close>

theorem record_keys:
  "process_product_item item = Inr r \<Longrightarrow>
     keys_of r = [''id'', ''uid'', ''sku'', ''name'', ''url_key'', ''stock_status'',
       ''final_price'', ''regular_price'', ''currency'', ''discount_amount'',
       ''discount_percent'', ''image_url'', ''description'', ''source_site''] \<and>
     field r ''source_site'' = Some (JStr ''electric-house'')"
  unfolding process_product_item_def and_then_Inr by (elim exE conjE) auto

theorem record_keys_witness:
  "process_product_item (JObj [(''id'', JInt 7), (''sku'', JStr ''EH-7'')]) =
     Inr (JObj [(''id'', JInt 7), (''uid'', JNull), (''sku'', JStr ''EH-7''), (''name'', JNull),
       (''url_key'', JNull), (''stock_status'', JNull), (''final_price'', JNull),
       (''regular_price'', JNull), (''currency'', JNull), (''discount_amount'', JNull),
       (''discount_percent'', JNull), (''image_url'', JNull), (''description'', JNull),
       (''source_site'', JStr ''electric-house'')]) \<and>
   keys_of (JObj [(''id'', JInt 7), (''uid'', JNull), (''sku'', JStr ''EH-7''), (''name'', JNull),
       (''url_key'', JNull), (''stock_status'', JNull), (''final_price'', JNull),
       (''regular_price'', JNull), (''currency'', JNull), (''discount_amount'', JNull),
       (''discount_percent'', JNull), (''image_url'', JNull), (''description'', JNull),
       (''source_site'', JStr ''electric-house'')]) =
     [''id'', ''uid'', ''sku'', ''name'', ''url_key'', ''stock_status'',
       ''final_price'', ''regular_price'', ''currency'', ''discount_amount'',
       ''discount_percent'', ''image_url'', ''description'', ''source_site'']"
proof -
  have h: "process_product_item (JObj [(''id'', JInt 7), (''sku'', JStr ''EH-7'')]) =
     Inr (JObj [(''id'', JInt 7), (''uid'', JNull), (''sku'', JStr ''EH-7''), (''name'', JNull),
       (''url_key'', JNull), (''stock_status'', JNull), (''final_price'', JNull),
       (''regular_price'', JNull), (''currency'', JNull), (''discount_amount'', JNull),
       (''discount_percent'', JNull), (''image_url'', JNull), (''description'', JNull),
       (''source_site'', JStr ''electric-house'')])"
    by (simp add: process_product_item_def)
  from record_keys [OF h] h show ?thesis by blast
qed

section \<open>The traversal\<close>

lemma scrape_target_iff: "scrape_target cat \<longleftrightarrow> childless cat \<and> truthy (uid_of cat)"
  by (cases cat) (auto split: option.splits)

lemma concat_map_if:
  "concat (map (\<lambda>x. if P x then [f x] else []) xs) = map f (filter P xs)"
  by (induction xs) simp_all

lemma traverse_for_forest:
  "category_forest cats \<Longrightarrow>
     traverse_for cats =
       (map scrape_request (filter (\<lambda>cat. childless cat \<and> truthy (uid_of cat)) (preorder cats)),
        None)"
proof (induction cats rule: preorder.induct)
  case 1
  show ?case by (simp add: done_gen_def)
next
  case (2 cat rest)
  from "2.prems" have node: "category_node cat"
    and f1: "category_forest (child_nodes cat)" and f2: "category_forest rest"
    by (simp_all add: category_forest_def)
  note ih1 = "2.IH"(1) [OF f1] and ih2 = "2.IH"(2) [OF f2]
  from node obtain kvs where cat: "cat = JObj kvs" by (cases cat) auto
  show ?case
  proof (cases "childless cat")
    case True
    then have hc: "has_children cat = Inr False"
      using cat by (auto simp: has_children_def split: option.splits json.splits)
    from True have cn: "child_nodes cat = []"
      using cat by (auto simp: child_nodes_def split: option.splits json.splits)
    show ?thesis
      using True hc cn ih2 cat
      by (simp add: eval_then_def scrape_request_def fetch_products_def emit_def
          done_gen_def split: option.splits)
  next
    case False
    with node cat obtain c cs where look: "map_of kvs ''children'' = Some (JArr (c # cs))"
      by (auto split: option.splits json.splits simp: neq_Nil_conv)
    then have hc: "has_children cat = Inr True" and cn: "child_nodes cat = c # cs"
      using cat by (simp_all add: has_children_def child_nodes_def)
    show ?thesis
      using False hc cn ih1 ih2 cat look
      by (simp add: eval_then_def)
  qed
qed

text \<open>
  C1, as the code has it. On every forest of category nodes, of any depth, the traversal
  returns without raising and yields, in pre-order, one products request (page 1) for
  each node that has no children and whose \<^verbatim>\<open>uid\<close> is truthy, and nothing else: no node
  with children is scraped, and the empty forest yields nothing. The claim itself
  promises every node without children; the guard \<^verbatim>\<open>if uid:\<close> leaves out those whose
  \<^verbatim>\<open>uid\<close> is missing, null or empty.
\<close>

theorem traverse_emits_leaves_with_uid:
  assumes "category_forest cats"
  shows "traverse_categories (JArr cats) =
    (map scrape_request (filter (\<lambda>cat. truthy (uid_of cat)) (leaves cats)), None)"
  using traverse_for_forest [OF assms]
  by (simp add: eval_then_def leaves_def conj_commute)

theorem traverse_emits_leaves_with_uid_witness:
  "traverse_categories (JArr
     [JObj [(''uid'', JStr ''A''), (''children'', JArr [])],
      JObj [(''uid'', JStr ''B''), (''children'', JArr
        [JObj [(''uid'', JStr ''C''), (''children'', JArr [])]])]]) =
     ([Req (ProductsRequest (JStr ''A'') 1), Req (ProductsRequest (JStr ''C'') 1)], None) \<and>
   traverse_categories (JArr []) = ([], None)"
  using traverse_emits_leaves_with_uid [of
     "[JObj [(''uid'', JStr ''A''), (''children'', JArr [])],
      JObj [(''uid'', JStr ''B''), (''children'', JArr
        [JObj [(''uid'', JStr ''C''), (''children'', JArr [])]])]]"]
    traverse_emits_leaves_with_uid [of "[]"]
  by (simp add: category_forest_def leaves_def child_nodes_def scrape_request_def)


text \<open>
  The claim of C1 fails on a forest of one leaf whose \<^verbatim>\<open>uid\<close> is the empty string: the
  node has an empty children list and nothing is yielded.
\<close>

theorem leaf_without_uid_not_emitted:
  "category_forest [JObj [(''id'', JInt 3), (''uid'', JStr ''''), (''name'', JStr ''A''),
       (''url_path'', JStr ''a''), (''children'', JArr [])]] \<and>
   leaves [JObj [(''id'', JInt 3), (''uid'', JStr ''''), (''name'', JStr ''A''),
       (''url_path'', JStr ''a''), (''children'', JArr [])]] =
     [JObj [(''id'', JInt 3), (''uid'', JStr ''''), (''name'', JStr ''A''),
       (''url_path'', JStr ''a''), (''children'', JArr [])]] \<and>
   traverse_categories (JArr [JObj [(''id'', JInt 3), (''uid'', JStr ''''), (''name'', JStr ''A''),
       (''url_path'', JStr ''a''), (''children'', JArr [])]]) = ([], None)"
  by (simp add: category_forest_def leaves_def child_nodes_def eval_then_def has_children_def
      done_gen_def)

text \<open>
  C10. On every forest of category nodes the traversal yields, node by node in
  pre-order, the page-1 products request of the node when the node's \<^verbatim>\<open>children\<close> entry
  is missing, null or the empty list and its \<^verbatim>\<open>uid\<close> is present and truthy, and nothing
  for the node otherwise.
\<close>

theorem scrape_iff_target:
  assumes "category_forest cats"
  shows "traverse_categories (JArr cats) =
    (concat (map (\<lambda>cat. if scrape_target cat then [scrape_request cat] else [])
       (preorder cats)), None)"
  using traverse_for_forest [OF assms]
  by (simp add: eval_then_def concat_map_if scrape_target_iff)

theorem scrape_iff_target_witness:
  "traverse_categories (JArr
     [JObj [(''uid'', JStr ''MQ==''), (''name'', JStr ''deepest'')],
      JObj [(''uid'', JStr ''Mg==''), (''children'', JNull)],
      JObj [(''name'', JStr ''no uid''), (''children'', JArr [])],
      JObj [(''uid'', JNull), (''children'', JArr [])],
      JObj [(''uid'', JStr ''''), (''children'', JArr [])],
      JObj [(''uid'', JStr ''Mw==''), (''children'', JArr
        [JObj [(''uid'', JStr ''NA==''), (''children'', JArr [])]])]]) =
     ([Req (ProductsRequest (JStr ''MQ=='') 1), Req (ProductsRequest (JStr ''Mg=='') 1),
       Req (ProductsRequest (JStr ''NA=='') 1)], None)"
  using scrape_iff_target [of
     "[JObj [(''uid'', JStr ''MQ==''), (''name'', JStr ''deepest'')],
      JObj [(''uid'', JStr ''Mg==''), (''children'', JNull)],
      JObj [(''name'', JStr ''no uid''), (''children'', JArr [])],
      JObj [(''uid'', JNull), (''children'', JArr [])],
      JObj [(''uid'', JStr ''''), (''children'', JArr [])],
      JObj [(''uid'', JStr ''Mw==''), (''children'', JArr
        [JObj [(''uid'', JStr ''NA==''), (''children'', JArr [])]])]]"]
  by (simp add: category_forest_def child_nodes_def scrape_request_def)

section \<open>Pagination\<close>

text \<open>
  What \<^verbatim>\<open>parse_products\<close> does on a page that decodes and carries no errors: one log
  line, the normalized items in order, and a request for the next page exactly when the
  page number is below the reported \<^verbatim>\<open>total_pages\<close>.
\<close>

lemma yield_items_ok:
  "list_all normalizes its \<Longrightarrow>
     \<exists>rs. yield_items its = (map Item rs, None) \<and> map Inr rs = map process_product_item its"
proof (induction its)
  case Nil
  show ?case by (simp add: done_gen_def)
next
  case (Cons item its)
  then obtain rs where rs: "yield_items its = (map Item rs, None)"
    "map Inr rs = map process_product_item its" by auto
  from Cons.prems obtain r where r: "process_product_item item = Inr r"
    by (auto simp: normalizes_def split: sum.splits)
  have "yield_items (item # its) = (map Item (r # rs), None)"
    using r rs by (simp add: eval_then_def emit_def gen_then_def)
  moreover have "map Inr (r # rs) = map process_product_item (item # its)"
    using r rs by simp
  ultimately show ?case by blast
qed

lemma parse_products_page:
  assumes "page_reports response its tp"
  shows "parse_products response uid p =
    gen_then (emit (Log INFO (ScrapedProducts (length its) uid p tp)))
      (gen_then (yield_items its)
        (eval_then (py_int_lt p tp) (\<lambda>more.
           if more then fetch_products uid (p + 1) else done_gen)))"
proof -
  from assms obtain data where data: "loads_body response = Loaded data"
    and noerr: "py_in ''errors'' data = Inr False"
    and items: "and_then (products_data data) (\<lambda>pd. py_get pd ''items'' (JArr [])) = Inr (JArr its)"
    and total: "and_then (products_data data) (\<lambda>pd.
            and_then (py_get pd ''page_info'' (JObj [])) (\<lambda>page_info.
              py_get page_info ''total_pages'' (JInt 1))) = Inr tp"
    by (auto simp: page_reports_def split: loads.splits)
  from items obtain pd where pd: "products_data data = Inr pd"
    and its: "py_get pd ''items'' (JArr []) = Inr (JArr its)"
    by (auto simp: and_then_Inr)
  from total pd obtain page_info where pi: "py_get pd ''page_info'' (JObj []) = Inr page_info"
    and tp: "py_get page_info ''total_pages'' (JInt 1) = Inr tp"
    by (auto simp: and_then_Inr)
  show ?thesis
    using data noerr pd its pi tp by (simp add: parse_products_def eval_then_def)
qed

lemma parse_products_pages:
  assumes "page_reports response its (JInt n)" and "list_all normalizes its"
  shows "\<exists>rs. map Inr rs = map process_product_item its \<and>
    parse_products response uid p =
      (Log INFO (ScrapedProducts (length its) uid p (JInt n)) # map Item rs @
         (if p < n then [Req (ProductsRequest uid (p + 1))] else []), None)"
proof -
  from yield_items_ok [OF assms(2)] obtain rs where
    rs: "yield_items its = (map Item rs, None)" "map Inr rs = map process_product_item its"
    by blast
  have "parse_products response uid p =
      (Log INFO (ScrapedProducts (length its) uid p (JInt n)) # map Item rs @
         (if p < n then [Req (ProductsRequest uid (p + 1))] else []), None)"
    unfolding parse_products_page [OF assms(1)]
    using rs(1) by (simp add: emit_def eval_then_def fetch_products_def done_gen_def)
  with rs(2) show ?thesis by blast
qed

lemma requests_of_append [simp]: "requests_of (xs @ ys) = requests_of xs @ requests_of ys"
  by (induction xs rule: requests_of.induct) simp_all

lemma items_of_append [simp]: "items_of (xs @ ys) = items_of xs @ items_of ys"
  by (induction xs rule: items_of.induct) simp_all

lemma requests_of_items [simp]: "requests_of (map Item rs) = []"
  by (induction rs) simp_all

lemma items_of_items [simp]: "items_of (map Item rs) = rs"
  by (induction rs) simp_all

lemma filter_items [simp]: "filter (\<lambda>ev. \<not> is_request ev) (map Item rs) = map Item rs"
  by (induction rs) simp_all

lemma crawl_pages:
  assumes srv: "\<And>q. p0 \<le> q \<Longrightarrow> q \<le> n \<Longrightarrow> server (ProductsRequest uid q) = Delivered (rs q)"
    and rep: "\<And>q. p0 \<le> q \<Longrightarrow> q \<le> n \<Longrightarrow> page_reports (rs q) (its q) (JInt n)"
    and norm: "\<And>q. p0 \<le> q \<Longrightarrow> q \<le> n \<Longrightarrow> list_all normalizes (its q)"
  shows "p0 \<le> p \<Longrightarrow> p \<le> n \<Longrightarrow> nat (n - p) < fuel \<Longrightarrow>
    \<exists>t. crawl_category fuel server (ProductsRequest uid p) = Some t \<and>
        requests_of t = map (ProductsRequest uid) [p..n] \<and>
        map Inr (items_of t) = concat (map (\<lambda>q. map process_product_item (its q)) [p..n])"
proof (induction fuel arbitrary: p)
  case 0
  then show ?case by simp
next
  case (Suc fuel)
  from parse_products_pages [OF rep [OF Suc.prems(1,2)] norm [OF Suc.prems(1,2)], of uid p]
  obtain xs where xs: "map Inr xs = map process_product_item (its p)"
    and pp: "parse_products (rs p) uid p =
      (Log INFO (ScrapedProducts (length (its p)) uid p (JInt n)) # map Item xs @
         (if p < n then [Req (ProductsRequest uid (p + 1))] else []), None)"
    by blast
  note here = srv [OF Suc.prems(1,2)]
  show ?case
  proof (cases "p < n")
    case False
    with Suc.prems have "p = n" by simp
    then have "[p..n] = [p]" by simp
    then show ?thesis
      using here pp xs False by (simp add: callback_output_def)
  next
    case True
    then have "p0 \<le> p + 1" "p + 1 \<le> n" "nat (n - (p + 1)) < fuel"
      using Suc.prems by simp_all
    from Suc.IH [OF this] obtain t where
      t: "crawl_category fuel server (ProductsRequest uid (p + 1)) = Some t"
        "requests_of t = map (ProductsRequest uid) [p + 1..n]"
        "map Inr (items_of t) = concat (map (\<lambda>q. map process_product_item (its q)) [p + 1..n])"
      by blast
    from True have up: "[p..n] = p # [p + 1..n]" by (simp add: upto_rec1)
    show ?thesis
      using here pp xs True t unfolding up by (simp add: callback_output_def)
  qed
qed

lemma upto_1_2: "[1..2] = [1, 2::int]"
  by (simp add: upto_rec1)

lemma page_reports_page_body: "page_reports (Response u (Loaded (page_body items c t))) items (JInt t)"
  by (simp add: page_reports_def page_body_def products_data_def)

text \<open>
  \<^verbatim>\<open>parse_products\<close> yields at most one request, the one for the next page of the same
  category: the requests of a category form a chain, which \<open>crawl_category\<close> follows.
\<close>

lemma requests_of_yield_items: "requests_of (fst (yield_items its)) = []"
proof (induction its)
  case Nil
  show ?case by (simp add: done_gen_def)
next
  case (Cons item its)
  show ?case
  proof (cases "process_product_item item")
    case (Inl e)
    then show ?thesis by (simp add: eval_then_def raise_gen_def)
  next
    case (Inr r)
    with Cons show ?thesis by (simp add: eval_then_def emit_def)
  qed
qed

lemma requests_of_gen_then:
  "requests_of (fst (gen_then g h)) =
     (case snd g of None \<Rightarrow> requests_of (fst g) @ requests_of (fst h) | Some e \<Rightarrow> requests_of (fst g))"
  by (cases g) (auto simp: gen_then_def split: option.splits)

lemma parse_products_one_request:
  "requests_of (fst (parse_products response uid p)) = [] \<or>
   requests_of (fst (parse_products response uid p)) = [ProductsRequest uid (p + 1)]"
proof (cases "loads_body response")
  case RaisesJSONDecodeError
  then show ?thesis by (simp add: parse_products_def emit_def)
next
  case RaisesUnicodeDecodeError
  then show ?thesis by (simp add: parse_products_def raise_gen_def)
next
  case (Loaded data)
  show ?thesis
    unfolding parse_products_def Loaded loads.case
    by (auto simp: eval_then_def raise_gen_def emit_def fetch_products_def done_gen_def
        requests_of_gen_then requests_of_yield_items split: sum.splits option.splits)
qed

text \<open>
  Where the items of the pages are nodes the normalizer accepts: when the server answers
  each of the pages \<open>1..n\<close> of a category (\<open>n \<ge> 1\<close>) with a response that decodes, carries
  no errors and reports \<^verbatim>\<open>total_pages = n\<close>, the chain that starts with page 1 ends after
  sending exactly the requests for pages \<open>1, ..., n\<close> in this order (any bound of at least
  \<open>n\<close> requests is enough), and the items it yields are the normalized items of page 1,
  then of page 2, and so on, each page in the order of its \<^verbatim>\<open>items\<close> array.
\<close>

lemma pages_fetched_in_order:
  assumes "1 \<le> n"
    and "\<forall>p\<in>{1..n}. server (ProductsRequest uid p) = Delivered (rs p)"
    and "\<forall>p\<in>{1..n}. page_reports (rs p) (its p) (JInt n)"
    and "\<forall>p\<in>{1..n}. list_all normalizes (its p)"
    and "nat n \<le> fuel"
  shows "\<exists>t. crawl_category fuel server (ProductsRequest uid 1) = Some t \<and>
     requests_of t = map (ProductsRequest uid) [1..n] \<and>
     map Inr (items_of t) = concat (map (\<lambda>p. map process_product_item (its p)) [1..n])"
proof (rule crawl_pages [where ?p0.0 = 1 and rs = rs])
  fix q :: int
  assume "1 \<le> q" "q \<le> n"
  then have "q \<in> {1..n}" by simp
  with assms(2-4) show "server (ProductsRequest uid q) = Delivered (rs q)"
    and "page_reports (rs q) (its q) (JInt n)" and "list_all normalizes (its q)"
    by blast+
next
  show "nat (n - 1) < fuel" using assms(1,5) by simp
qed (use assms(1) in simp_all)

lemma pages_fetched_in_order_example:
  "(\<exists>t. crawl_category 2 two_pages (ProductsRequest (JStr ''uid-1'') 1) = Some t \<and>
     requests_of t = [ProductsRequest (JStr ''uid-1'') 1, ProductsRequest (JStr ''uid-1'') 2] \<and>
     map Inr (items_of t) =
       [process_product_item (JObj [(''sku'', JStr ''p1'')]),
        process_product_item (JObj [(''sku'', JStr ''p2'')]),
        process_product_item (JObj [(''sku'', JStr ''p3'')])]) \<and>
   (\<exists>t. crawl_category 1 one_page (ProductsRequest (JStr ''uid-1'') 1) = Some t \<and>
     requests_of t = [ProductsRequest (JStr ''uid-1'') 1] \<and>
     map Inr (items_of t) = [process_product_item (JObj [(''sku'', JStr ''p1'')])])"
proof -
  let ?rs = "\<lambda>p. Response ''https://electric-house.com/graphql''
     (Loaded (if p = 1 then page_body [JObj [(''sku'', JStr ''p1'')], JObj [(''sku'', JStr ''p2'')]] 1 2
            else page_body [JObj [(''sku'', JStr ''p3'')]] 2 2))"
  let ?its = "\<lambda>p::int. if p = 1 then [JObj [(''sku'', JStr ''p1'')], JObj [(''sku'', JStr ''p2'')]]
     else [JObj [(''sku'', JStr ''p3'')]]"
  have set12: "{1..2::int} = {1, 2}" by auto
  have a: "\<forall>p\<in>{1..2}. two_pages (ProductsRequest (JStr ''uid-1'') p) = Delivered (?rs p)"
    by (simp add: set12 two_pages_def)
  have b: "\<forall>p\<in>{1..2}. page_reports (?rs p) (?its p) (JInt 2)"
    by (simp add: set12 page_reports_page_body)
  have c: "\<forall>p\<in>{1..2}. list_all normalizes (?its p)"
    by (simp add: set12 normalizes_def process_product_item_def)
  let ?r1 = "\<lambda>p::int. Response ''https://electric-house.com/graphql''
     (Loaded (page_body [JObj [(''sku'', JStr ''p1'')]] p 1))"
  let ?i1 = "\<lambda>p::int. [JObj [(''sku'', JStr ''p1'')]]"
  have a1: "\<forall>p\<in>{1..1}. one_page (ProductsRequest (JStr ''uid-1'') p) = Delivered (?r1 p)"
    by (simp add: one_page_def)
  have b1: "\<forall>p\<in>{1..1}. page_reports (?r1 p) (?i1 p) (JInt 1)"
    by (simp add: page_reports_page_body)
  have c1: "\<forall>p\<in>{1..1}. list_all normalizes (?i1 p)"
    by (simp add: normalizes_def process_product_item_def)
  from pages_fetched_in_order [of 2 two_pages "JStr ''uid-1''" ?rs ?its 2, OF _ a b c]
    pages_fetched_in_order [of 1 one_page "JStr ''uid-1''" ?r1 ?i1 1, OF _ a1 b1 c1]
  show ?thesis by (simp add: upto_1_2)
qed

text \<open>
  C2. The claim: when every page of a category reports \<^verbatim>\<open>total_pages = N\<close>, exactly the
  requests for pages \<open>1..N\<close> are sent and the items of all pages are yielded. The code
  stops early when an item of a page has a nested block that is present but null: with
  two pages that both report \<^verbatim>\<open>total_pages = 2\<close> and a second item of page 1 whose
  \<^verbatim>\<open>small_image\<close> is null, the first item is yielded, the normalizer raises inside the
  \<^verbatim>\<open>for\<close> loop (lines 183-184) before the pagination test (line 187), and page 2 is
  never requested.
\<close>

theorem null_block_item_ends_chain:
  "crawl_category 2 null_image_on_first_page (ProductsRequest (JStr ''uid-1'') 1) =
     Some [Req (ProductsRequest (JStr ''uid-1'') 1),
           Log INFO (ScrapedProducts 2 (JStr ''uid-1'') 1 (JInt 2)),
           Item (JObj [(''id'', JNull), (''uid'', JNull), (''sku'', JStr ''p1''),
             (''name'', JNull), (''url_key'', JNull), (''stock_status'', JNull),
             (''final_price'', JNull), (''regular_price'', JNull), (''currency'', JNull),
             (''discount_amount'', JNull), (''discount_percent'', JNull),
             (''image_url'', JNull), (''description'', JNull),
             (''source_site'', JStr ''electric-house'')]),
           Log ERROR (SpiderError (ProductsRequest (JStr ''uid-1'') 1) AttributeError)]"
  by (simp add: numeral_2_eq_2 null_image_on_first_page_def page_body_def parse_products_def
      products_data_def process_product_item_def eval_then_def emit_def raise_gen_def
      done_gen_def callback_output_def)

text \<open>
  C4, as the code has it. An empty \<^verbatim>\<open>items\<close> list does not end the pagination: after a
  page without items \<^verbatim>\<open>parse_products\<close> logs the page and requests the next page exactly
  when the page number is below the reported \<^verbatim>\<open>total_pages\<close>. The code has no test on
  the number of items.
\<close>

theorem empty_page_requests_next:
  assumes "page_reports response [] (JInt n)"
  shows "parse_products response uid p =
    (Log INFO (ScrapedProducts 0 uid p (JInt n)) #
       (if p < n then [Req (ProductsRequest uid (p + 1))] else []), None)"
  unfolding parse_products_page [OF assms]
  by (simp add: emit_def eval_then_def fetch_products_def done_gen_def)

theorem empty_page_requests_next_witness:
  "parse_products (Response ''https://electric-house.com/graphql'' (Loaded (page_body [] 1 3)))
     (JStr ''uid-1'') 1 =
   ([Log INFO (ScrapedProducts 0 (JStr ''uid-1'') 1 (JInt 3)),
     Req (ProductsRequest (JStr ''uid-1'') 2)], None)"
  using empty_page_requests_next [OF page_reports_page_body, of _ 1 3 "JStr ''uid-1''" 1]
  by simp


text \<open>
  The claim of C4 fails on a server whose pages all have no items and report
  \<^verbatim>\<open>total_pages = 3\<close>: after the empty page 1, pages 2 and 3 are requested.
\<close>

theorem empty_page_not_a_stop:
  "crawl_category 3 empty_pages (ProductsRequest (JStr ''uid-1'') 1) =
     Some [Req (ProductsRequest (JStr ''uid-1'') 1),
           Log INFO (ScrapedProducts 0 (JStr ''uid-1'') 1 (JInt 3)),
           Req (ProductsRequest (JStr ''uid-1'') 2),
           Log INFO (ScrapedProducts 0 (JStr ''uid-1'') 2 (JInt 3)),
           Req (ProductsRequest (JStr ''uid-1'') 3),
           Log INFO (ScrapedProducts 0 (JStr ''uid-1'') 3 (JInt 3))]"
  by (simp add: numeral_3_eq_3 empty_pages_def page_body_def parse_products_def
      products_data_def eval_then_def emit_def fetch_products_def done_gen_def
      callback_output_def)

text \<open>
  C5. When the body of a page response decodes to an object with an \<^verbatim>\<open>errors\<close> key,
  \<^verbatim>\<open>parse_products\<close> logs the errors, yields no item and no request, and returns without
  raising; so the chain of the category ends with this request. For page 1: one request,
  no item.
\<close>

theorem errors_end_category:
  assumes "loads_body response = Loaded (JObj kvs)" and "map_of kvs ''errors'' = Some errs"
  shows "parse_products response uid p = ([Log ERROR (GraphQLErrors uid p errs)], None) \<and>
    (server (ProductsRequest uid p) = Delivered response \<longrightarrow>
       crawl_category (Suc fuel) server (ProductsRequest uid p) =
         Some [Req (ProductsRequest uid p), Log ERROR (GraphQLErrors uid p errs)])"
proof -
  from assms(2) have "''errors'' \<in> fst ` set kvs"
    by (metis map_of_eq_None_iff option.distinct(1))
  with assms have pp: "parse_products response uid p = ([Log ERROR (GraphQLErrors uid p errs)], None)"
    by (simp add: parse_products_def eval_then_def emit_def)
  then show ?thesis by (simp add: callback_output_def)
qed

theorem errors_end_category_witness:
  "parse_products (Response ''https://electric-house.com/graphql'' (Loaded errors_body))
     (JStr ''uid-1'') 1 =
     ([Log ERROR (GraphQLErrors (JStr ''uid-1'') 1
         (JArr [JObj [(''message'', JStr ''Internal server error'')]]))], None) \<and>
   crawl_category (Suc 4) errors_on_first_page (ProductsRequest (JStr ''uid-1'') 1) =
     Some [Req (ProductsRequest (JStr ''uid-1'') 1),
           Log ERROR (GraphQLErrors (JStr ''uid-1'') 1
             (JArr [JObj [(''message'', JStr ''Internal server error'')]]))]"
  using errors_end_category [of "Response ''https://electric-house.com/graphql'' (Loaded errors_body)"
      "[(''errors'', JArr [JObj [(''message'', JStr ''Internal server error'')]]), (''data'', JNull)]"
      "JArr [JObj [(''message'', JStr ''Internal server error'')]]"
      "JStr ''uid-1''" 1 errors_on_first_page 4]
  by (simp add: errors_body_def errors_on_first_page_def)

text \<open>
  What \<^verbatim>\<open>parse_categories\<close> does when the decoder raises \<^verbatim>\<open>JSONDecodeError\<close> and when
  a key of the path is missing from a decoded object: nothing is yielded and nothing is
  raised; the first case logs an error, the others the info line for zero root
  categories.
\<close>

lemma category_response_without_path:
  "(loads_body response = RaisesJSONDecodeError \<longrightarrow>
      parse_categories response = ([Log ERROR (FailedToDecodeJSON (url response))], None)) \<and>
   (loads_body response = Loaded (JObj kvs) \<and> map_of kvs ''data'' = None \<longrightarrow>
      parse_categories response = ([Log INFO (FoundRootCategories 0)], None)) \<and>
   (loads_body response = Loaded (JObj kvs) \<and> map_of kvs ''data'' = Some (JObj d) \<and>
    map_of d ''categoryList'' = None \<longrightarrow>
      parse_categories response = ([Log INFO (FoundRootCategories 0)], None))"
  by (simp add: parse_categories_def eval_then_def emit_def done_gen_def)

text \<open>
  C6. The claim: on every malformed category response (a body that is not parseable
  JSON, \<^verbatim>\<open>data\<close> present but null, a body that is not an object, a missing field path)
  category resolution yields nothing, logs an error and does not raise. The code raises:
  on \<^verbatim>\<open>data\<close> null (the shape of a GraphQL error response) \<^verbatim>\<open>data.get("data", {})\<close> is
  \<^verbatim>\<open>None\<close> and \<^verbatim>\<open>None.get\<close> raises \<^verbatim>\<open>AttributeError\<close>; a body that is not an object has
  no \<^verbatim>\<open>get\<close>; on a null \<^verbatim>\<open>categoryList\<close> \<^verbatim>\<open>len(None)\<close> raises \<^verbatim>\<open>TypeError\<close>; and on bytes
  that are not valid UTF-8 the decoder raises \<^verbatim>\<open>UnicodeDecodeError\<close>. The handler at line
  94 catches \<^verbatim>\<open>json.JSONDecodeError\<close> only.
\<close>

theorem parse_categories_raises_on_malformed:
  "parse_categories (Response ''https://electric-house.com/graphql''
       (Loaded (JObj [(''errors'', JArr [JObj [(''message'', JStr ''Internal server error'')]]),
                      (''data'', JNull)]))) = ([], Some AttributeError) \<and>
   parse_categories (Response ''https://electric-house.com/graphql'' (Loaded (JArr []))) =
     ([], Some AttributeError) \<and>
   parse_categories (Response ''https://electric-house.com/graphql''
       (Loaded (JObj [(''data'', JObj [(''categoryList'', JNull)])]))) = ([], Some TypeError) \<and>
   parse_categories (Response ''https://electric-house.com/graphql'' RaisesUnicodeDecodeError) =
     ([], Some UnicodeDecodeError)"
  by (simp add: parse_categories_def eval_then_def raise_gen_def)

end
